theory Spec2Isabelle
  imports Main
begin

section \<open>Customer transactions dashboard (src/src/App.jsx)\<close>

text \<open>
  The component \<open>App\<close> keeps five pieces of React state, two event handlers that
  recompute the list shown in the table, and a function \<open>chartData\<close> that derives the
  bar chart from the state. Each hook value is a field of a record; each handler is a
  function from the state of the current render to the state of the next one.

  Customer and transaction ids are integers (\<open>int\<close>); the code only compares them with
  \<open>===\<close> and uses them as property keys. Amounts are JavaScript numbers, that is
  binary64 values, and the code adds them: they have a type of their own, with the
  rounding of every addition written out.
\<close>

subsection \<open>Numbers\<close>

text \<open>
  \<open>Finite m e\<close> stands for the number \<open>m * 2^e\<close>. A binary64 value is such a number
  with at most 53 significant bits, \<open>e\<close> not below \<open>-1074\<close> and a magnitude below
  \<open>2^1024\<close>, or an infinity, or \<open>NaN\<close>. One number has several such pairs (\<open>Finite 10 0\<close>
  and \<open>Finite 5 1\<close>); the operations below depend on the number only, never on the
  pair. The sign of a zero is not represented: \<open>+\<close>, \<open>>=\<close> and \<open>===\<close> give the same
  results on \<open>-0\<close> and \<open>0\<close> up to that sign.
\<close>

datatype number = Finite int int | PosInfinity | NegInfinity | NaN

text \<open>The integer \<open>n\<close> as a number.\<close>

definition whole :: "int \<Rightarrow> number" where
  "whole n = Finite n 0"

text \<open>The number of bits of \<open>n\<close>: the least \<open>b\<close> with \<open>n < 2^b\<close>.\<close>

fun bit_length :: "nat \<Rightarrow> nat" where
  "bit_length n = (if n = 0 then 0 else Suc (bit_length (n div 2)))"

declare bit_length.simps [simp del]

definition isBinary64 :: "number \<Rightarrow> bool" where
  "isBinary64 x =
     (case x of
        Finite m e \<Rightarrow>
          bit_length (nat \<bar>m\<bar>) \<le> 53 \<and> - 1074 \<le> e \<and> int (bit_length (nat \<bar>m\<bar>)) + e \<le> 1024
      | _ \<Rightarrow> True)"

text \<open>\<open>k / 2^p\<close> rounded to the nearest integer, a tie going to the even one.\<close>

definition round_half_even :: "nat \<Rightarrow> nat \<Rightarrow> nat" where
  "round_half_even k p =
     (let q = k div 2 ^ p; r = k mod 2 ^ p
      in if 2 ^ p < 2 * r then q + 1
         else if 2 * r = 2 ^ p \<and> odd q then q + 1
         else q)"

text \<open>
  The binary64 value nearest to \<open>k * 2^e\<close> (roundTiesToEven), for \<open>e\<close> not below
  \<open>-1074\<close>: \<open>k\<close> keeps its 53 leading bits, and a result of magnitude \<open>2^1024\<close> or more
  is an infinity.
\<close>

definition roundToDouble :: "int \<Rightarrow> int \<Rightarrow> number" where
  "roundToDouble k e =
     (let a = nat \<bar>k\<bar>;
          p = bit_length a - 53;
          q = round_half_even a p
      in if 1024 < int (bit_length q) + (e + int p)
         then (if k < 0 then NegInfinity else PosInfinity)
         else Finite (sgn k * int q) (e + int p))"

text \<open>
  \<open>x + y\<close> on numbers: the exact sum, rounded. The sum of two binary64 values is a
  multiple of \<open>2^-1074\<close>, so it never rounds below the 53 bits.
\<close>

fun js_add :: "number \<Rightarrow> number \<Rightarrow> number" where
  "js_add NaN y = NaN"
| "js_add x NaN = NaN"
| "js_add PosInfinity NegInfinity = NaN"
| "js_add NegInfinity PosInfinity = NaN"
| "js_add PosInfinity y = PosInfinity"
| "js_add x PosInfinity = PosInfinity"
| "js_add NegInfinity y = NegInfinity"
| "js_add x NegInfinity = NegInfinity"
| "js_add (Finite m1 e1) (Finite m2 e2) =
     (let e = min e1 e2
      in roundToDouble (m1 * 2 ^ nat (e1 - e) + m2 * 2 ^ nat (e2 - e)) e)"

text \<open>\<open>x >= y\<close> on numbers: false as soon as one side is \<open>NaN\<close>.\<close>

fun js_ge :: "number \<Rightarrow> number \<Rightarrow> bool" where
  "js_ge NaN y = False"
| "js_ge x NaN = False"
| "js_ge PosInfinity y = True"
| "js_ge x NegInfinity = True"
| "js_ge NegInfinity y = False"
| "js_ge x PosInfinity = False"
| "js_ge (Finite m1 e1) (Finite m2 e2) =
     (let e = min e1 e2 in m2 * 2 ^ nat (e2 - e) \<le> m1 * 2 ^ nat (e1 - e))"

text \<open>
  \<open>xs.reduce((sum, x) => sum + x, 0)\<close>: the sum of numbers from left to right, starting
  at \<open>0\<close>. Line 85 adds the amounts of a day this way.
\<close>

definition sumNumbers :: "number list \<Rightarrow> number" where
  "sumNumbers xs = foldl js_add (whole 0) xs"

subsection \<open>Data\<close>

record customer =
  id_cust :: int
  name :: string

record transaction =
  id_txn :: int
  customer_id :: int
  date :: string
  amount :: number

text \<open>
  \<open>selectedCustomer\<close> starts as \<open>null\<close>, is reset to \<open>null\<close> by the handler, and is
  otherwise the result of \<open>customers.find(...)\<close>: a customer object or \<open>undefined\<close>.
\<close>

datatype selected = Null | Undefined | Obj customer

record app_state =
  customers :: "customer list"
  transactions :: "transaction list"
  filteredTransactions :: "transaction list"
  selectedCustomer :: selected
  filterAmount :: string

text \<open>The values passed to \<open>useState\<close> (lines 10 to 14).\<close>

definition initial_state :: app_state where
  "initial_state =
     \<lparr>customers = [], transactions = [], filteredTransactions = [],
      selectedCustomer = Null, filterAmount = ''''\<rparr>"

subsection \<open>The built-ins the handlers call\<close>

text \<open>
  \<open>parseInt(string)\<close> with no radix, after ECMA-262: skip leading white space, read an
  optional sign, switch to radix 16 after a \<open>0x\<close> or \<open>0X\<close> prefix, take the longest
  prefix of digits of the radix, and return \<open>NaN\<close> (\<open>None\<close>) when that prefix is empty.
  Otherwise the result is the binary64 value nearest to the integer the digits denote:
  an integer again, equal to the denoted one below \<open>2^53\<close>. A result of \<open>2^1024\<close> or
  more stands for \<open>Infinity\<close>: it is above every finite number, as \<open>Infinity\<close> is.
  Strings are ASCII here, so the white space characters are TAB, LF, VT, FF, CR and
  SPACE.
\<close>

definition isStrWhiteSpaceChar :: "char \<Rightarrow> bool" where
  "isStrWhiteSpaceChar c \<longleftrightarrow>
     (let n = (of_char c :: nat) in (9 \<le> n \<and> n \<le> 13) \<or> n = 32)"

definition digitValue :: "char \<Rightarrow> nat option" where
  "digitValue c =
     (let n = (of_char c :: nat) in
      if 48 \<le> n \<and> n \<le> 57 then Some (n - 48)
      else if 97 \<le> n \<and> n \<le> 102 then Some (n - 87)
      else if 65 \<le> n \<and> n \<le> 70 then Some (n - 55)
      else None)"

definition isRadixDigit :: "nat \<Rightarrow> char \<Rightarrow> bool" where
  "isRadixDigit R c = (case digitValue c of None \<Rightarrow> False | Some v \<Rightarrow> v < R)"

definition mathInt :: "nat \<Rightarrow> string \<Rightarrow> nat" where
  "mathInt R Z =
     foldl (\<lambda>acc c. case digitValue c of None \<Rightarrow> acc | Some v \<Rightarrow> acc * R + v) 0 Z"

text \<open>The integer nearest to \<open>n\<close> that has at most 53 significant bits.\<close>

definition round53 :: "nat \<Rightarrow> nat" where
  "round53 n = (let p = bit_length n - 53 in round_half_even n p * 2 ^ p)"

definition parseInt :: "string \<Rightarrow> int option" where
  "parseInt string =
     (let S = dropWhile isStrWhiteSpaceChar string;
          sign = (case S of c # _ \<Rightarrow> if c = CHR ''-'' then - 1 else 1 | [] \<Rightarrow> 1);
          S = (case S of c # rest \<Rightarrow> if c = CHR ''+'' \<or> c = CHR ''-'' then rest else S
                       | [] \<Rightarrow> S);
          hex = (take 2 S = ''0x'' \<or> take 2 S = ''0X'');
          R = (if hex then 16 else 10);
          S = (if hex then drop 2 S else S);
          Z = takeWhile (isRadixDigit R) S
      in if Z = [] then None else Some (sign * int (round53 (mathInt R Z))))"

text \<open>
  \<open>x === y\<close> between an id of the data and a result of \<open>parseInt\<close>, and \<open>x >= y\<close>
  between an amount and a result of \<open>parseInt\<close>: both are false when the right-hand
  side is \<open>NaN\<close>.
\<close>

definition strict_eq :: "int \<Rightarrow> int option \<Rightarrow> bool" where
  "strict_eq x y = (case y of None \<Rightarrow> False | Some m \<Rightarrow> x = m)"

definition greater_eq_num :: "number \<Rightarrow> int option \<Rightarrow> bool" where
  "greater_eq_num x y = (case y of None \<Rightarrow> False | Some m \<Rightarrow> js_ge x (whole m))"

text \<open>
  The decimal digits of an integer, most significant first, after a minus sign for a
  negative one. For an integer of magnitude below \<open>2^53\<close> this is the string \<open>String(n)\<close>,
  which React writes into the \<open>value\<close> attribute of each \<open>option\<close> (lines 138 and
  154) and the select hands to the handler as \<open>e.target.value\<close>. Above that bound
  \<open>String\<close> may shorten the digits, and from \<open>10^21\<close> on it uses exponent notation
  (\<open>1e+21\<close>): the statements below use \<open>toString_int\<close> under the bound only.
\<close>

fun digits10 :: "nat \<Rightarrow> string" where
  "digits10 n =
     (if n < 10 then [char_of (48 + n)]
      else digits10 (n div 10) @ [char_of (48 + n mod 10)])"

declare digits10.simps [simp del]

definition toString_int :: "int \<Rightarrow> string" where
  "toString_int n = (if n < 0 then CHR ''-'' # digits10 (nat (- n)) else digits10 (nat n))"

subsection \<open>Loading (lines 18 to 28)\<close>

text \<open>
  \<open>fetchData\<close> lives in \<open>./api\<close>, which is not part of the sources at hand, so its
  outcome is a parameter: the awaited promise rejects, or it resolves to a value that
  is either falsy (\<open>null\<close>, \<open>undefined\<close>) or an object with both collections.
\<close>

record snapshot =
  data_customers :: "customer list"
  data_transactions :: "transaction list"

datatype fetch_outcome = Rejected | Resolved "snapshot option"

datatype promise_outcome = Fulfilled | RejectedPromise

text \<open>
  \<open>getData\<close> is an async function: a rejection of the awaited promise ends its body
  before any setter runs and rejects the promise \<open>getData\<close> returns.
\<close>

definition getData :: "fetch_outcome \<Rightarrow> app_state \<Rightarrow> promise_outcome \<times> app_state" where
  "getData fetched st =
     (case fetched of
        Rejected \<Rightarrow> (RejectedPromise, st)
      | Resolved None \<Rightarrow> (Fulfilled, st)
      | Resolved (Some data) \<Rightarrow>
          (Fulfilled,
           st\<lparr>customers := data_customers data,
              transactions := data_transactions data,
              filteredTransactions := data_transactions data\<rparr>))"

text \<open>
  The effect calls \<open>getData()\<close> and drops the promise (line 27), so the effect itself
  returns normally whatever the promise does.
\<close>

definition loadEffect :: "fetch_outcome \<Rightarrow> app_state \<Rightarrow> app_state" where
  "loadEffect fetched st = snd (getData fetched st)"

subsection \<open>The two handlers (lines 30 to 47)\<close>

definition handleFilterCustomerID :: "string \<Rightarrow> app_state \<Rightarrow> app_state" where
  "handleFilterCustomerID customerId st =
     (if customerId = '''' then
        st\<lparr>selectedCustomer := Null, filteredTransactions := transactions st\<rparr>
      else
        let filtered =
              filter (\<lambda>t. strict_eq (customer_id t) (parseInt customerId)) (transactions st)
        in st\<lparr>filteredTransactions := filtered,
              selectedCustomer :=
                (case find (\<lambda>c. strict_eq (id_cust c) (parseInt customerId)) (customers st) of
                   None \<Rightarrow> Undefined
                 | Some c \<Rightarrow> Obj c)\<rparr>)"

definition handleFilterAmount :: "string \<Rightarrow> app_state \<Rightarrow> app_state" where
  "handleFilterAmount amt st =
     (let filtered =
            filter (\<lambda>t. greater_eq_num (amount t) (parseInt amt)) (transactions st)
      in st\<lparr>filteredTransactions := filtered, filterAmount := amt\<rparr>)"

subsection \<open>The chart (lines 49 to 99)\<close>

text \<open>
  The accumulator of the first \<open>reduce\<close> is an array of fresh objects
  \<open>{customer_id, amount}\<close>. \<open>find\<close> returns the first object with the id, and
  \<open>existingCustomer.amount += ...\<close> updates that object where it stands.
\<close>

record group_total =
  g_customer_id :: int
  g_amount :: number

fun add_to_first :: "int \<Rightarrow> number \<Rightarrow> group_total list \<Rightarrow> group_total list" where
  "add_to_first cid a [] = []"
| "add_to_first cid a (g # gs) =
     (if g_customer_id g = cid then g\<lparr>g_amount := js_add (g_amount g) a\<rparr> # gs
      else g # add_to_first cid a gs)"

definition groupStep :: "group_total list \<Rightarrow> transaction \<Rightarrow> group_total list" where
  "groupStep acc t =
     (case find (\<lambda>item. g_customer_id item = customer_id t) acc of
        Some existingCustomer \<Rightarrow> add_to_first (customer_id t) (amount t) acc
      | None \<Rightarrow> acc @ [\<lparr>g_customer_id = customer_id t, g_amount = amount t\<rparr>])"

text \<open>
  \<open>customerNames\<close> is a plain object keyed by \<open>String(customer.id)\<close>. The model keeps
  its properties in creation order, keyed by the integer itself (\<open>String\<close> maps
  different numbers to different strings). Assigning to an existing key keeps its place.
  \<open>Object.keys\<close> lists the array indices (\<open>0\<close> to \<open>2^32 - 2\<close>) in ascending order
  first and the other keys in creation order after them.
\<close>

type_synonym js_object = "(int \<times> string) list"

fun obj_assign :: "int \<Rightarrow> string \<Rightarrow> js_object \<Rightarrow> js_object" where
  "obj_assign k v [] = [(k, v)]"
| "obj_assign k v ((k', v') # ps) =
     (if k' = k then (k, v) # ps else (k', v') # obj_assign k v ps)"

definition isArrayIndex :: "int \<Rightarrow> bool" where
  "isArrayIndex k \<longleftrightarrow> 0 \<le> k \<and> k \<le> 4294967294"

definition Object_keys :: "js_object \<Rightarrow> int list" where
  "Object_keys obj =
     sort (filter isArrayIndex (map fst obj)) @
     filter (\<lambda>k. \<not> isArrayIndex k) (map fst obj)"

text \<open>\<open>obj[k]\<close>: the value of the property, or \<open>undefined\<close> (\<open>None\<close>).\<close>

definition obj_get :: "js_object \<Rightarrow> int \<Rightarrow> string option" where
  "obj_get obj k = map_of obj k"

text \<open>
  \<open>new Set(xs)\<close> adds the elements in order and ignores one already present;
  spreading the set lists it in insertion order.
\<close>

definition Set_add :: "'a list \<Rightarrow> 'a \<Rightarrow> 'a list" where
  "Set_add s x = (if x \<in> set s then s else s @ [x])"

definition new_Set :: "'a list \<Rightarrow> 'a list" where
  "new_Set xs = foldl Set_add [] xs"

text \<open>
  The object \<open>chartData\<close> returns: the labels, and the label and data of its single
  dataset (the three colour and border constants are left out). A label read from
  \<open>customerNames\<close> is a string or \<open>undefined\<close>.
\<close>

record chart =
  labels :: "string option list"
  dataset_label :: string
  data :: "number list"

definition chartData :: "app_state \<Rightarrow> chart" where
  "chartData st =
     (let allCustomers =
            (let allCustomerTransactions = foldl groupStep [] (transactions st);
                 customerNames =
                   foldl (\<lambda>acc c. obj_assign (id_cust c) (name c) acc) [] (customers st);
                 labels = map (\<lambda>customerId. obj_get customerNames customerId)
                              (Object_keys customerNames);
                 amounts = map g_amount allCustomerTransactions
             in \<lparr>labels = labels, dataset_label = ''Total amount per customer'',
                 data = amounts\<rparr>)
      in case selectedCustomer st of
           Null \<Rightarrow> allCustomers
         | Undefined \<Rightarrow> allCustomers
         | Obj sc \<Rightarrow>
             (let customerTransactions =
                    filter (\<lambda>t. customer_id t = id_cust sc) (transactions st);
                  dates = new_Set (map date customerTransactions);
                  amounts =
                    map (\<lambda>d. foldl (\<lambda>sum t. js_add sum (amount t)) (whole 0)
                                 (filter (\<lambda>t. date t = d) customerTransactions))
                        dates
              in \<lparr>labels = map Some dates,
                  dataset_label = ''Total amount per day for '' @ name sc,
                  data = amounts\<rparr>))"

subsection \<open>The table body (lines 177 to 183)\<close>

text \<open>
  One row per filtered transaction. The first cell is
  \<open>customers.find(...)?.name\<close>: \<open>undefined\<close> (\<open>None\<close>, rendered as an empty cell) when
  no customer has the transaction's \<open>customer_id\<close>.
\<close>

record table_row =
  row_key :: int
  cell_customer :: "string option"
  cell_date :: string
  cell_amount :: number

definition tableRow :: "customer list \<Rightarrow> transaction \<Rightarrow> table_row" where
  "tableRow cs t =
     \<lparr>row_key = id_txn t,
      cell_customer = map_option name (find (\<lambda>c. id_cust c = customer_id t) cs),
      cell_date = date t,
      cell_amount = amount t\<rparr>"

definition tableBody :: "app_state \<Rightarrow> table_row list" where
  "tableBody st = map (tableRow (customers st)) (filteredTransactions st)"
subsection \<open>The scenario of the specification\<close>

text \<open>
  Two customers and three transactions; \<open>scenario_state\<close> is the state once the fetch
  has resolved with them.
\<close>

definition scenario_customers :: "customer list" where
  "scenario_customers = [\<lparr>id_cust = 1, name = ''A''\<rparr>, \<lparr>id_cust = 2, name = ''B''\<rparr>]"

definition scenario_transactions :: "transaction list" where
  "scenario_transactions =
     [\<lparr>id_txn = 1, customer_id = 1, date = ''2024-01-01'', amount = whole 10\<rparr>,
      \<lparr>id_txn = 2, customer_id = 1, date = ''2024-01-02'', amount = whole 5\<rparr>,
      \<lparr>id_txn = 3, customer_id = 2, date = ''2024-01-01'', amount = whole 20\<rparr>]"

definition scenario_state :: app_state where
  "scenario_state =
     loadEffect
       (Resolved (Some \<lparr>data_customers = scenario_customers,
                             data_transactions = scenario_transactions\<rparr>))
       initial_state"

text \<open>
  Variations of it: customer 1 selected over transactions whose dates are not in
  calendar order; customer 2 missing from the customer collection; only the
  transaction of customer 2 loaded; no transaction loaded.
\<close>

definition unsorted_state :: app_state where
  "unsorted_state =
     \<lparr>customers = scenario_customers,
      transactions =
        [\<lparr>id_txn = 1, customer_id = 1, date = ''2024-01-02'', amount = whole 5\<rparr>,
         \<lparr>id_txn = 2, customer_id = 2, date = ''2024-01-03'', amount = whole 20\<rparr>,
         \<lparr>id_txn = 3, customer_id = 1, date = ''2024-01-01'', amount = whole 10\<rparr>,
         \<lparr>id_txn = 4, customer_id = 1, date = ''2024-01-02'', amount = whole 7\<rparr>],
      filteredTransactions = [],
      selectedCustomer = Obj \<lparr>id_cust = 1, name = ''A''\<rparr>,
      filterAmount = ''''\<rparr>"

definition orphan_state :: app_state where
  "orphan_state =
     loadEffect
       (Resolved (Some \<lparr>data_customers = [\<lparr>id_cust = 1, name = ''A''\<rparr>],
                             data_transactions = scenario_transactions\<rparr>))
       initial_state"

definition single_purchase_state :: app_state where
  "single_purchase_state =
     loadEffect
       (Resolved (Some \<lparr>data_customers = scenario_customers,
                             data_transactions =
                               [\<lparr>id_txn = 3, customer_id = 2, date = ''2024-01-01'',
                                 amount = whole 20\<rparr>]\<rparr>))
       initial_state"

definition no_transactions_state :: app_state where
  "no_transactions_state =
     loadEffect
       (Resolved (Some \<lparr>data_customers = scenario_customers, data_transactions = []\<rparr>))
       initial_state"

text \<open>
  Amounts with a fraction. The JSON numbers \<open>0.1\<close> and \<open>1.1\<close> are read as the nearest
  binary64 values, \<open>7205759403792794 * 2^-56\<close> and \<open>4953959590107546 * 2^-52\<close>. In
  \<open>tenths_state\<close> customer 1 pays 0.1 and 1.1 and customer 2 pays 0.1 in between; in
  \<open>tenths_by_day_state\<close> customer 1, selected, pays 0.1 and 1.1 on one day and 0.1 on
  another in between.
\<close>

definition tenth :: number where
  "tenth = Finite 7205759403792794 (- 56)"

definition eleven_tenths :: number where
  "eleven_tenths = Finite 4953959590107546 (- 52)"

definition tenths_state :: app_state where
  "tenths_state =
     loadEffect
       (Resolved (Some \<lparr>data_customers = scenario_customers,
                             data_transactions =
          [\<lparr>id_txn = 1, customer_id = 1, date = ''2024-01-01'', amount = tenth\<rparr>,
           \<lparr>id_txn = 2, customer_id = 2, date = ''2024-01-01'', amount = tenth\<rparr>,
           \<lparr>id_txn = 3, customer_id = 1, date = ''2024-01-02'', amount = eleven_tenths\<rparr>]\<rparr>))
       initial_state"

definition tenths_by_day_state :: app_state where
  "tenths_by_day_state =
     \<lparr>customers = scenario_customers,
      transactions =
        [\<lparr>id_txn = 1, customer_id = 1, date = ''2024-01-01'', amount = tenth\<rparr>,
         \<lparr>id_txn = 2, customer_id = 1, date = ''2024-01-02'', amount = tenth\<rparr>,
         \<lparr>id_txn = 3, customer_id = 1, date = ''2024-01-01'', amount = eleven_tenths\<rparr>],
      filteredTransactions = [],
      selectedCustomer = Obj \<lparr>id_cust = 1, name = ''A''\<rparr>,
      filterAmount = ''''\<rparr>"

text \<open>
  A customer whose id is \<open>10^21\<close>, next to customer 1, with one transaction each. The
  option of that customer has the value \<open>String(10^21)\<close>, which is \<open>1e+21\<close>.
\<close>

definition large_id_state :: app_state where
  "large_id_state =
     loadEffect
       (Resolved (Some \<lparr>data_customers =
          [\<lparr>id_cust = 1, name = ''A''\<rparr>,
           \<lparr>id_cust = 1000000000000000000000, name = ''Z''\<rparr>],
                             data_transactions =
          [\<lparr>id_txn = 1, customer_id = 1, date = ''2024-01-01'', amount = whole 10\<rparr>,
           \<lparr>id_txn = 2, customer_id = 1000000000000000000000, date = ''2024-01-01'',
             amount = whole 20\<rparr>]\<rparr>))
       initial_state"

subsection \<open>Auxiliary notions used in the statements\<close>

definition isDecimalDigit :: "char \<Rightarrow> bool" where
  "isDecimalDigit c \<longleftrightarrow> 48 \<le> (of_char c :: nat) \<and> (of_char c :: nat) \<le> 57"

text \<open>The position at which \<open>x\<close> first occurs in \<open>xs\<close> (\<open>length xs\<close> if it never does).\<close>

definition first_index :: "'a list \<Rightarrow> 'a \<Rightarrow> nat" where
  "first_index xs x = length (takeWhile (\<lambda>y. y \<noteq> x) xs)"

text \<open>\<open>x === y\<close> on numbers, which holds exactly when \<open>x >= y\<close> and \<open>y >= x\<close> do.\<close>

definition js_equals :: "number \<Rightarrow> number \<Rightarrow> bool" where
  "js_equals x y \<longleftrightarrow> js_ge x y \<and> js_ge y x"

text \<open>The integer of a number written as \<open>whole n\<close>.\<close>

fun mantissa :: "number \<Rightarrow> int" where
  "mantissa (Finite m e) = m"
| "mantissa PosInfinity = 0"
| "mantissa NegInfinity = 0"
| "mantissa NaN = 0"

section \<open>Properties\<close>

subsection \<open>Rounding and exact sums\<close>

lemma bit_length_le: "n < 2 ^ b \<Longrightarrow> bit_length n \<le> b"
proof (induction b arbitrary: n)
  case 0
  then show ?case by (simp add: bit_length.simps [of 0])
next
  case (Suc b)
  show ?case
  proof (cases "n = 0")
    case True
    then show ?thesis by (simp add: bit_length.simps [of 0])
  next
    case False
    from Suc.prems have "n div 2 < 2 ^ b" by simp
    then have "bit_length (n div 2) \<le> b" by (rule Suc.IH)
    with False show ?thesis by (simp add: bit_length.simps [of n])
  qed
qed

lemma bit_length_ge: "2 ^ b \<le> n \<Longrightarrow> b < bit_length n"
proof (induction b arbitrary: n)
  case 0
  then show ?case by (simp add: bit_length.simps [of n])
next
  case (Suc b)
  have "0 < (2::nat) ^ Suc b" by simp
  from this Suc.prems have "0 < n" by (rule less_le_trans)
  then have "n \<noteq> 0" by simp
  from Suc.prems have "2 ^ b \<le> n div 2" by simp
  then have "b < bit_length (n div 2)" by (rule Suc.IH)
  with \<open>n \<noteq> 0\<close> show ?case by (simp add: bit_length.simps [of n])
qed

lemma bit_length_eqI: "n < 2 ^ Suc b \<Longrightarrow> 2 ^ b \<le> n \<Longrightarrow> bit_length n = Suc b"
  using bit_length_le [of n "Suc b"] bit_length_ge [of b n] by simp

lemma round_half_even_0: "round_half_even k 0 = k"
  by (simp add: round_half_even_def)

lemma round53_small: "n < 2 ^ 53 \<Longrightarrow> round53 n = n"
  using bit_length_le [of n 53] by (simp add: round53_def round_half_even_0)

lemma roundToDouble_exact:
  assumes "\<bar>k\<bar> < 2 ^ 53" and "e \<le> 971"
  shows "roundToDouble k e = Finite k e"
proof -
  have "nat \<bar>k\<bar> < 2 ^ 53" using assms(1) by (simp add: nat_less_iff)
  then have bl: "bit_length (nat \<bar>k\<bar>) \<le> 53" by (rule bit_length_le)
  then have p: "bit_length (nat \<bar>k\<bar>) - 53 = 0" by simp
  have sg: "sgn k * \<bar>k\<bar> = k" by (simp add: mult_sgn_abs)
  show ?thesis
    unfolding roundToDouble_def Let_def p round_half_even_0
    using bl assms(2) sg by simp
qed

lemma roundToDouble_rounded:
  assumes a: "a = nat \<bar>k\<bar>"
    and hi: "a < 2 ^ Suc (52 + p)" and lo: "2 ^ (52 + p) \<le> a"
    and q: "q = round_half_even a p" and qb: "q < 2 ^ 54"
    and e: "e + int p \<le> 970"
  shows "roundToDouble k e = Finite (sgn k * int q) (e + int p)"
proof -
  have bl: "bit_length a = Suc (52 + p)" using hi lo by (rule bit_length_eqI)
  then have p: "bit_length a - 53 = p" by simp
  have "bit_length q \<le> 54" using qb by (rule bit_length_le)
  with e have "\<not> 1024 < int (bit_length q) + (e + int p)" by simp
  then show ?thesis
    unfolding roundToDouble_def Let_def a [symmetric] p q [symmetric] by simp
qed

lemma js_add_whole: "\<bar>a + b\<bar> < 2 ^ 53 \<Longrightarrow> js_add (whole a) (whole b) = whole (a + b)"
  by (simp add: whole_def roundToDouble_exact)

lemma js_ge_whole: "js_ge (whole a) (whole b) \<longleftrightarrow> b \<le> a"
  by (simp add: whole_def)

lemma js_add_zero_left:
  "\<bar>m\<bar> < 2 ^ 53 \<Longrightarrow> e \<le> 0 \<Longrightarrow> js_add (whole 0) (Finite m e) = Finite m e"
  by (simp add: whole_def min_def roundToDouble_exact)

lemma sum_list_abs_nonneg: "0 \<le> sum_list (map abs (ns :: int list))"
  by (induction ns) simp_all

lemma foldl_js_add_whole:
  "\<bar>a\<bar> + sum_list (map abs ns) < 2 ^ 53 \<Longrightarrow>
   foldl js_add (whole a) (map whole ns) = whole (a + sum_list ns)"
proof (induction ns arbitrary: a)
  case Nil
  then show ?case by simp
next
  case (Cons n ns)
  have tri: "\<bar>a + n\<bar> \<le> \<bar>a\<bar> + \<bar>n\<bar>" by (rule abs_triangle_ineq)
  from Cons.prems tri sum_list_abs_nonneg [of ns] have s: "\<bar>a + n\<bar> < 2 ^ 53" by simp
  from Cons.prems tri have "\<bar>a + n\<bar> + sum_list (map abs ns) < 2 ^ 53" by simp
  then have "foldl js_add (whole (a + n)) (map whole ns) = whole (a + n + sum_list ns)"
    by (rule Cons.IH)
  with s show ?case by (simp add: js_add_whole add.assoc)
qed

lemma sumNumbers_whole:
  "sum_list (map abs ns) < 2 ^ 53 \<Longrightarrow> sumNumbers (map whole ns) = whole (sum_list ns)"
  using foldl_js_add_whole [of 0 ns] by (simp add: sumNumbers_def)

lemma abs_sum_list_le: "\<bar>sum_list ns\<bar> \<le> sum_list (map abs (ns :: int list))"
  by (induction ns) auto

lemma mantissa_whole: "mantissa (whole n) = n"
  by (simp add: whole_def)

lemma whole_amounts:
  assumes "map amount ts = map whole ns"
  shows "ns = map (\<lambda>t. mantissa (amount t)) ts"
    and "map amount ts = map (\<lambda>t. whole (mantissa (amount t))) ts"
proof -
  from assms have "map mantissa (map amount ts) = map mantissa (map whole ns)" by simp
  then show ns: "ns = map (\<lambda>t. mantissa (amount t)) ts"
    by (simp add: mantissa_whole o_def)
  from assms ns show "map amount ts = map (\<lambda>t. whole (mantissa (amount t))) ts"
    by (simp add: o_def)
qed

text \<open>The additions of 0.1 and 1.1 that the two charts of tenths perform.\<close>

lemma tenth_plus_eleven_tenths:
  "js_add tenth eleven_tenths = Finite 5404319552844596 (- 52)"
proof -
  have "roundToDouble 86469112845513530 (- 56) = Finite (sgn 86469112845513530 * int 5404319552844596) (- 56 + int 4)"
    by (rule roundToDouble_rounded [where a = 86469112845513530])
      (simp_all add: round_half_even_def)
  then show ?thesis by (simp add: tenth_def eleven_tenths_def)
qed

lemma tenth_plus_tenth: "js_add tenth tenth = Finite 7205759403792794 (- 55)"
proof -
  have "roundToDouble 14411518807585588 (- 56) =
          Finite (sgn 14411518807585588 * int 7205759403792794) (- 56 + int 1)"
    by (rule roundToDouble_rounded [where a = 14411518807585588])
      (simp_all add: round_half_even_def)
  then show ?thesis by (simp add: tenth_def)
qed

lemma points_total:
  "js_add (Finite 5404319552844596 (- 52)) tenth = Finite 5854679515581646 (- 52)"
proof -
  have "roundToDouble 93674872249306330 (- 56) =
          Finite (sgn 93674872249306330 * int 5854679515581646) (- 56 + int 4)"
    by (rule roundToDouble_rounded [where a = 93674872249306330])
      (simp_all add: round_half_even_def)
  then show ?thesis by (simp add: tenth_def)
qed

lemma amounts_total:
  "js_add (Finite 7205759403792794 (- 55)) eleven_tenths = Finite 5854679515581645 (- 52)"
proof -
  have "roundToDouble 46837436124653162 (- 55) =
          Finite (sgn 46837436124653162 * int 5854679515581645) (- 55 + int 3)"
    by (rule roundToDouble_rounded [where a = 46837436124653162])
      (simp_all add: round_half_even_def)
  then show ?thesis by (simp add: eleven_tenths_def)
qed

lemma zero_plus_tenth: "js_add (whole 0) tenth = tenth"
  by (simp add: tenth_def js_add_zero_left)

lemma zero_plus_first_group:
  "js_add (whole 0) (Finite 5404319552844596 (- 52)) = Finite 5404319552844596 (- 52)"
  by (simp add: js_add_zero_left)

lemma tenths_are_binary64: "isBinary64 tenth \<and> isBinary64 eleven_tenths"
proof -
  have "bit_length 7205759403792794 \<le> 53" by (rule bit_length_le) simp
  moreover have "bit_length 4953959590107546 \<le> 53" by (rule bit_length_le) simp
  ultimately show ?thesis by (simp add: isBinary64_def tenth_def eleven_tenths_def)
qed

subsection \<open>\<open>parseInt\<close> reads back the digits of an integer\<close>

lemma of_char_digit: "(d::nat) < 10 \<Longrightarrow> (of_char (char_of (48 + d) :: char) :: nat) = 48 + d"
  by (simp add: of_char_of take_bit_eq_mod)

lemma isDecimalDigit_char_of: "(d::nat) < 10 \<Longrightarrow> isDecimalDigit (char_of (48 + d))"
  by (simp add: isDecimalDigit_def of_char_digit)

lemma digitValue_char_of: "(d::nat) < 10 \<Longrightarrow> digitValue (char_of (48 + d)) = Some d"
  by (simp add: digitValue_def of_char_digit)

lemma digits10_decimal: "\<forall>c \<in> set (digits10 n). isDecimalDigit c"
proof (induction n rule: digits10.induct)
  case (1 n)
  show ?case
  proof (cases "n < 10")
    case True
    then show ?thesis by (simp add: digits10.simps [of n] isDecimalDigit_char_of)
  next
    case False
    with 1 show ?thesis
      by (simp add: digits10.simps [of n] isDecimalDigit_char_of)
  qed
qed

lemma digits10_nonempty: "digits10 n \<noteq> []"
  by (simp add: digits10.simps [of n])

lemma mathInt_snoc:
  "mathInt R (Z @ [c]) = (case digitValue c of None \<Rightarrow> mathInt R Z | Some v \<Rightarrow> mathInt R Z * R + v)"
  by (simp add: mathInt_def split: option.split)

lemma mathInt_digits10: "mathInt 10 (digits10 n) = n"
proof (induction n rule: digits10.induct)
  case (1 n)
  show ?case
  proof (cases "n < 10")
    case True
    then show ?thesis
      by (simp add: digits10.simps [of n] mathInt_def digitValue_char_of)
  next
    case False
    with 1 have "mathInt 10 (digits10 (n div 10)) = n div 10" by simp
    with False show ?thesis
      by (simp add: digits10.simps [of n] mathInt_snoc digitValue_char_of)
  qed
qed

lemma decimal_not_space: "isDecimalDigit c \<Longrightarrow> \<not> isStrWhiteSpaceChar c"
  by (simp add: isDecimalDigit_def isStrWhiteSpaceChar_def Let_def)

lemma decimal_not_sign: "isDecimalDigit c \<Longrightarrow> c \<noteq> CHR ''+'' \<and> c \<noteq> CHR ''-'' \<and> c \<noteq> CHR ''x'' \<and> c \<noteq> CHR ''X''"
  by (auto simp add: isDecimalDigit_def)

lemma decimal_radix10: "isDecimalDigit c \<Longrightarrow> isRadixDigit 10 c"
  by (auto simp add: isDecimalDigit_def isRadixDigit_def digitValue_def Let_def)

lemma minus_not_space: "\<not> isStrWhiteSpaceChar CHR ''-''"
  by (simp add: isStrWhiteSpaceChar_def)

lemma no_hex_prefix:
  assumes "\<forall>c \<in> set ds. isDecimalDigit c"
  shows "take 2 ds \<noteq> ''0x'' \<and> take 2 ds \<noteq> ''0X''"
proof (cases ds)
  case Nil
  then show ?thesis by simp
next
  case (Cons c cs)
  show ?thesis
  proof (cases cs)
    case Nil
    with Cons show ?thesis by simp
  next
    case (Cons d es)
    with \<open>ds = c # cs\<close> assms have "isDecimalDigit d" by simp
    then have "d \<noteq> CHR ''x'' \<and> d \<noteq> CHR ''X''" by (simp add: decimal_not_sign)
    with Cons \<open>ds = c # cs\<close> show ?thesis by (simp add: numeral_2_eq_2)
  qed
qed

lemma parseInt_unsigned:
  assumes ne: "ds \<noteq> []" and dec: "\<forall>c \<in> set ds. isDecimalDigit c"
  shows "parseInt ds = Some (int (round53 (mathInt 10 ds)))"
proof -
  from ne obtain c cs where ds: "ds = c # cs" by (cases ds) auto
  with dec have c: "isDecimalDigit c" by simp
  have drop: "dropWhile isStrWhiteSpaceChar ds = ds"
    using c ds by (simp add: decimal_not_space)
  have tw: "takeWhile (isRadixDigit 10) ds = ds"
    using dec by (simp add: takeWhile_eq_all_conv decimal_radix10)
  have nohex: "take 2 ds \<noteq> ''0x''" "take 2 ds \<noteq> ''0X''"
    using no_hex_prefix [OF dec] by simp_all
  have sg: "c \<noteq> CHR ''+''" "c \<noteq> CHR ''-''" using c by (simp_all add: decimal_not_sign)
  have sign: "(case ds of c # _ \<Rightarrow> if c = CHR ''-'' then - 1 else 1 | [] \<Rightarrow> 1) = (1::int)"
    using sg by (simp add: ds)
  have strip: "(case ds of c # rest \<Rightarrow> if c = CHR ''+'' \<or> c = CHR ''-'' then rest else ds
                | [] \<Rightarrow> ds) = ds"
    using sg by (simp add: ds)
  show ?thesis
    unfolding parseInt_def Let_def drop sign strip
    by (simp add: nohex tw ne)
qed

lemma parseInt_negative:
  assumes ne: "ds \<noteq> []" and dec: "\<forall>c \<in> set ds. isDecimalDigit c"
  shows "parseInt (CHR ''-'' # ds) = Some (- int (round53 (mathInt 10 ds)))"
proof -
  have drop: "dropWhile isStrWhiteSpaceChar (CHR ''-'' # ds) = CHR ''-'' # ds"
    by (simp add: minus_not_space)
  have tw: "takeWhile (isRadixDigit 10) ds = ds"
    using dec by (simp add: takeWhile_eq_all_conv decimal_radix10)
  have nohex: "take 2 ds \<noteq> ''0x''" "take 2 ds \<noteq> ''0X''"
    using no_hex_prefix [OF dec] by simp_all
  show ?thesis
    unfolding parseInt_def Let_def drop
    by (simp add: nohex tw ne)
qed

lemma parseInt_toString_int:
  assumes "\<bar>n\<bar> < 2 ^ 53"
  shows "parseInt (toString_int n) = Some n"
proof (cases "n < 0")
  case True
  with assms have "nat (- n) < 2 ^ 53" by (simp add: nat_less_iff)
  then have "round53 (nat (- n)) = nat (- n)" by (rule round53_small)
  with True show ?thesis
    by (simp add: toString_int_def parseInt_negative digits10_nonempty digits10_decimal
        mathInt_digits10)
next
  case False
  with assms have "nat n < 2 ^ 53" by (simp add: nat_less_iff)
  then have "round53 (nat n) = nat n" by (rule round53_small)
  with False show ?thesis
    by (simp add: toString_int_def parseInt_unsigned digits10_nonempty digits10_decimal
        mathInt_digits10)
qed

lemma toString_int_nonempty: "toString_int n \<noteq> ''''"
  by (simp add: toString_int_def digits10_nonempty)

lemma parseInt_empty: "parseInt '''' = None"
  by (simp add: parseInt_def)

lemma parseInt_1: "parseInt ''1'' = Some 1"
proof -
  have "toString_int 1 = ''1''" by code_simp
  with parseInt_toString_int [of 1] show ?thesis by simp
qed

lemma parseInt_2: "parseInt ''2'' = Some 2"
proof -
  have "toString_int 2 = ''2''" by code_simp
  with parseInt_toString_int [of 2] show ?thesis by simp
qed

lemma parseInt_10: "parseInt ''10'' = Some 10"
proof -
  have "toString_int 10 = ''10''" by code_simp
  with parseInt_toString_int [of 10] show ?thesis by simp
qed

lemma parseInt_1e21: "parseInt ''1e+21'' = Some 1"
  by (simp add: parseInt_def isStrWhiteSpaceChar_def isRadixDigit_def digitValue_def
      mathInt_def round53_small)

subsection \<open>The states of the examples\<close>

lemma scenario_state_eq:
  "scenario_state =
     \<lparr>customers = scenario_customers, transactions = scenario_transactions,
      filteredTransactions = scenario_transactions, selectedCustomer = Null,
      filterAmount = ''''\<rparr>"
  by (simp add: scenario_state_def loadEffect_def getData_def initial_state_def)

lemma large_id_state_eq:
  "large_id_state =
     \<lparr>customers =
        [\<lparr>id_cust = 1, name = ''A''\<rparr>, \<lparr>id_cust = 1000000000000000000000, name = ''Z''\<rparr>],
      transactions =
        [\<lparr>id_txn = 1, customer_id = 1, date = ''2024-01-01'', amount = whole 10\<rparr>,
         \<lparr>id_txn = 2, customer_id = 1000000000000000000000, date = ''2024-01-01'',
           amount = whole 20\<rparr>],
      filteredTransactions =
        [\<lparr>id_txn = 1, customer_id = 1, date = ''2024-01-01'', amount = whole 10\<rparr>,
         \<lparr>id_txn = 2, customer_id = 1000000000000000000000, date = ''2024-01-01'',
           amount = whole 20\<rparr>],
      selectedCustomer = Null, filterAmount = ''''\<rparr>"
  by (simp add: large_id_state_def loadEffect_def getData_def initial_state_def)

lemma tenths_state_eq:
  "tenths_state =
     \<lparr>customers = scenario_customers,
      transactions =
        [\<lparr>id_txn = 1, customer_id = 1, date = ''2024-01-01'', amount = tenth\<rparr>,
         \<lparr>id_txn = 2, customer_id = 2, date = ''2024-01-01'', amount = tenth\<rparr>,
         \<lparr>id_txn = 3, customer_id = 1, date = ''2024-01-02'', amount = eleven_tenths\<rparr>],
      filteredTransactions =
        [\<lparr>id_txn = 1, customer_id = 1, date = ''2024-01-01'', amount = tenth\<rparr>,
         \<lparr>id_txn = 2, customer_id = 2, date = ''2024-01-01'', amount = tenth\<rparr>,
         \<lparr>id_txn = 3, customer_id = 1, date = ''2024-01-02'', amount = eleven_tenths\<rparr>],
      selectedCustomer = Null, filterAmount = ''''\<rparr>"
  by (simp add: tenths_state_def loadEffect_def getData_def initial_state_def)

lemma orphan_state_eq:
  "orphan_state =
     \<lparr>customers = [\<lparr>id_cust = 1, name = ''A''\<rparr>], transactions = scenario_transactions,
      filteredTransactions = scenario_transactions, selectedCustomer = Null,
      filterAmount = ''''\<rparr>"
  by (simp add: orphan_state_def loadEffect_def getData_def initial_state_def)

subsection \<open>Loading\<close>

text \<open>
  Claim C8 says that the load step completes without error when the fetch fails. When
  the awaited promise rejects, the body of \<open>getData\<close> ends at the \<open>await\<close>, the promise
  it returns is rejected, and nothing in the file catches it (no \<open>try\<close>, no \<open>.catch\<close>).
\<close>

theorem getData_rejected_is_not_fulfilled:
  "fst (getData Rejected initial_state) = RejectedPromise \<and>
   fst (getData Rejected initial_state) \<noteq> Fulfilled"
  by (simp add: getData_def)

text \<open>
  Claim C8, amended. If the fetch resolves to no data (\<open>null\<close> or another falsy value),
  the promise of \<open>getData\<close> is fulfilled and the state is left as it was. If the fetch
  fails (the awaited promise rejects), the state is left as it was too, but the promise
  of \<open>getData\<close> is rejected. From the initial state the customers, the transactions
  and the filtered transactions are therefore still empty in both cases.
\<close>

theorem load_without_data_stays_empty:
  "loadEffect Rejected st = st \<and>
   loadEffect (Resolved None) st = st \<and>
   fst (getData (Resolved None) st) = Fulfilled \<and>
   fst (getData Rejected st) = RejectedPromise \<and>
   customers (loadEffect Rejected initial_state) = [] \<and>
   transactions (loadEffect Rejected initial_state) = [] \<and>
   filteredTransactions (loadEffect Rejected initial_state) = [] \<and>
   customers (loadEffect (Resolved None) initial_state) = [] \<and>
   transactions (loadEffect (Resolved None) initial_state) = [] \<and>
   filteredTransactions (loadEffect (Resolved None) initial_state) = []"
  by (simp add: loadEffect_def getData_def initial_state_def)

subsection \<open>The handlers\<close>

text \<open>
  Claim C10. Neither handler changes the customers or the transactions of the snapshot;
  \<open>handleFilterCustomerID\<close> leaves \<open>filterAmount\<close> as it was and
  \<open>handleFilterAmount\<close> leaves \<open>selectedCustomer\<close> as it was.
\<close>

theorem handlers_frame:
  "customers (handleFilterCustomerID customerId st) = customers st \<and>
   transactions (handleFilterCustomerID customerId st) = transactions st \<and>
   filterAmount (handleFilterCustomerID customerId st) = filterAmount st \<and>
   customers (handleFilterAmount amt st) = customers st \<and>
   transactions (handleFilterAmount amt st) = transactions st \<and>
   selectedCustomer (handleFilterAmount amt st) = selectedCustomer st"
  by (simp add: handleFilterCustomerID_def handleFilterAmount_def Let_def)

text \<open>
  Claim C3 speaks of every customer id. The handler receives the value of the option,
  \<open>String(id)\<close>, and reads it back with \<open>parseInt\<close>. For the customer with id
  \<open>10^21\<close> that value is \<open>1e+21\<close>, \<open>parseInt\<close> stops at the letter and returns 1, and
  the handler shows the transaction of customer 1 and selects customer 1.
\<close>

theorem handleFilterCustomerID_large_id:
  "map id_cust (customers large_id_state) = [1, 1000000000000000000000] \<and>
   map id_txn (filter (\<lambda>t. customer_id t = 1000000000000000000000)
                      (transactions large_id_state)) = [2] \<and>
   parseInt ''1e+21'' = Some 1 \<and>
   map id_txn (filteredTransactions (handleFilterCustomerID ''1e+21'' large_id_state)) = [1] \<and>
   selectedCustomer (handleFilterCustomerID ''1e+21'' large_id_state) =
     Obj \<lparr>id_cust = 1, name = ''A''\<rparr>"
  by (simp add: handleFilterCustomerID_def large_id_state_eq parseInt_1e21 strict_eq_def)

text \<open>
  Claim C3, amended. Whenever \<open>parseInt\<close> reads the value of the selected option as
  the customer id \<open>c\<close>, the filtered list is exactly the transactions with
  \<open>customer_id = c\<close>, in their order in the snapshot. This is so for every customer id
  of magnitude below \<open>2^53\<close>, whose option value is the string of its decimal digits.
  Selecting \<open>All\<close> (the empty string) resets \<open>selectedCustomer\<close> to \<open>null\<close> and makes
  the filtered list the whole snapshot.
\<close>

theorem handleFilterCustomerID_filters:
  assumes "\<bar>c\<bar> < 2 ^ 53"
  shows "filteredTransactions (handleFilterCustomerID (toString_int c) st) =
           filter (\<lambda>t. customer_id t = c) (transactions st) \<and>
         (parseInt customerId = Some k \<longrightarrow>
            filteredTransactions (handleFilterCustomerID customerId st) =
              filter (\<lambda>t. customer_id t = k) (transactions st)) \<and>
         selectedCustomer (handleFilterCustomerID '''' st) = Null \<and>
         filteredTransactions (handleFilterCustomerID '''' st) = transactions st"
proof -
  have digits: "filteredTransactions (handleFilterCustomerID (toString_int c) st) =
      filter (\<lambda>t. customer_id t = c) (transactions st)"
    using assms
    by (simp add: handleFilterCustomerID_def Let_def toString_int_nonempty
        parseInt_toString_int strict_eq_def)
  have any: "parseInt customerId = Some k \<longrightarrow>
      filteredTransactions (handleFilterCustomerID customerId st) =
        filter (\<lambda>t. customer_id t = k) (transactions st)"
  proof
    assume parse: "parseInt customerId = Some k"
    then have "customerId \<noteq> ''''" by (auto simp add: parseInt_empty)
    then show "filteredTransactions (handleFilterCustomerID customerId st) =
        filter (\<lambda>t. customer_id t = k) (transactions st)"
      by (simp add: handleFilterCustomerID_def Let_def parse strict_eq_def)
  qed
  have all: "selectedCustomer (handleFilterCustomerID '''' st) = Null"
    "filteredTransactions (handleFilterCustomerID '''' st) = transactions st"
    by (simp_all add: handleFilterCustomerID_def)
  from digits any all show ?thesis by blast
qed

theorem handleFilterCustomerID_filters_witness:
  "\<bar>2 :: int\<bar> < 2 ^ 53 \<and> toString_int 2 = ''2'' \<and> parseInt ''2'' = Some 2 \<and>
   map id_txn (filteredTransactions (handleFilterCustomerID ''2'' scenario_state)) = [3] \<and>
   selectedCustomer (handleFilterCustomerID '''' scenario_state) = Null \<and>
   map id_txn (filteredTransactions (handleFilterCustomerID '''' scenario_state)) = [1, 2, 3]"
proof -
  have b: "\<bar>2 :: int\<bar> < 2 ^ 53" by simp
  have s: "toString_int 2 = ''2''" by code_simp
  note inst = handleFilterCustomerID_filters
    [OF b, of scenario_state "''2''" 2, unfolded s]
  from inst have "filteredTransactions (handleFilterCustomerID ''2'' scenario_state) =
      filter (\<lambda>t. customer_id t = 2) (transactions scenario_state)"
    by blast
  then have f: "map id_txn (filteredTransactions (handleFilterCustomerID ''2'' scenario_state)) =
      [3]"
    by (simp add: scenario_state_eq scenario_transactions_def)
  from inst have n: "selectedCustomer (handleFilterCustomerID '''' scenario_state) = Null"
    by blast
  from inst have "filteredTransactions (handleFilterCustomerID '''' scenario_state) =
      transactions scenario_state"
    by blast
  then have a: "map id_txn (filteredTransactions (handleFilterCustomerID '''' scenario_state)) =
      [1, 2, 3]"
    by (simp add: scenario_state_eq scenario_transactions_def)
  from b s f n a parseInt_2 show ?thesis by blast
qed

text \<open>
  Claim C7. In a state where a customer is selected, entering an amount that reads as
  the number \<open>m\<close> makes the filtered list the transactions of the whole snapshot with
  \<open>amount >= m\<close>, whoever their customer is; the selection itself stays.
\<close>

theorem handleFilterAmount_ignores_selection:
  assumes "selectedCustomer st = Obj c" and "parseInt amt = Some m"
  shows "filteredTransactions (handleFilterAmount amt st) =
           filter (\<lambda>t. js_ge (amount t) (whole m)) (transactions st) \<and>
         selectedCustomer (handleFilterAmount amt st) = Obj c"
  using assms by (simp add: handleFilterAmount_def Let_def greater_eq_num_def)

text \<open>
  In the scenario, with customer 1 selected (transactions 1 and 2 shown), the amount
  \<open>10\<close> shows transactions 1 and 3: transaction 3 belongs to customer 2.
\<close>

theorem handleFilterAmount_ignores_selection_witness:
  "selectedCustomer (handleFilterCustomerID ''1'' scenario_state) =
     Obj \<lparr>id_cust = 1, name = ''A''\<rparr> \<and>
   parseInt ''10'' = Some 10 \<and>
   map id_txn (filteredTransactions (handleFilterCustomerID ''1'' scenario_state)) = [1, 2] \<and>
   map id_txn (filteredTransactions
      (handleFilterAmount ''10'' (handleFilterCustomerID ''1'' scenario_state))) = [1, 3]"
proof -
  have sel: "selectedCustomer (handleFilterCustomerID ''1'' scenario_state) =
               Obj \<lparr>id_cust = 1, name = ''A''\<rparr>"
    by (simp add: handleFilterCustomerID_def scenario_state_eq scenario_customers_def
        parseInt_1 strict_eq_def)
  have tr: "transactions (handleFilterCustomerID ''1'' scenario_state) = scenario_transactions"
    by (simp add: handleFilterCustomerID_def scenario_state_eq Let_def)
  have f: "map id_txn (filteredTransactions (handleFilterCustomerID ''1'' scenario_state)) =
             [1, 2]"
    by (simp add: handleFilterCustomerID_def scenario_state_eq scenario_transactions_def
        parseInt_1 strict_eq_def)
  from handleFilterAmount_ignores_selection [OF sel parseInt_10] tr
  have "map id_txn (filteredTransactions
      (handleFilterAmount ''10'' (handleFilterCustomerID ''1'' scenario_state))) = [1, 3]"
    by (simp add: scenario_transactions_def js_ge_whole)
  with sel parseInt_10 f show ?thesis by simp
qed

subsection \<open>The chart with no customer selected\<close>

lemma chartData_Null:
  "data (chartData (st\<lparr>selectedCustomer := Null\<rparr>)) =
     map g_amount (foldl groupStep [] (transactions st))"
  by (simp add: chartData_def Let_def)

lemma chartData_Undefined:
  "data (chartData (st\<lparr>selectedCustomer := Undefined\<rparr>)) =
     map g_amount (foldl groupStep [] (transactions st))"
  by (simp add: chartData_def Let_def)

lemma chartData_not_selected:
  "selectedCustomer st = Undefined \<Longrightarrow> chartData st = chartData (st\<lparr>selectedCustomer := Null\<rparr>)"
  by (simp add: chartData_def)

lemma tenths_state_data:
  "data (chartData tenths_state) = [Finite 5404319552844596 (- 52), tenth]"
  by (simp add: tenths_state_eq chartData_def Let_def groupStep_def tenth_plus_eleven_tenths)

text \<open>
  Claim C4 says that the points add up to the sum of the amounts, for every transaction
  collection. Amounts are added in binary64 and each addition rounds. In
  \<open>tenths_state\<close> the points are 0.1 + 1.1 for customer 1 and 0.1 for customer 2; added
  from left to right they give \<open>5854679515581646 * 2^-52\<close> (printed
  1.3000000000000003), while the three amounts added in their order give
  \<open>5854679515581645 * 2^-52\<close> (printed 1.3).
\<close>

theorem aggregateByCustomer_total_is_rounded:
  "isBinary64 tenth \<and> isBinary64 eleven_tenths \<and>
   map amount (transactions tenths_state) = [tenth, tenth, eleven_tenths] \<and>
   selectedCustomer tenths_state = Null \<and>
   sumNumbers (data (chartData tenths_state)) = Finite 5854679515581646 (- 52) \<and>
   sumNumbers (map amount (transactions tenths_state)) = Finite 5854679515581645 (- 52) \<and>
   \<not> js_equals (sumNumbers (data (chartData tenths_state)))
                (sumNumbers (map amount (transactions tenths_state)))"
proof -
  have p: "sumNumbers (data (chartData tenths_state)) = Finite 5854679515581646 (- 52)"
    by (simp add: tenths_state_data sumNumbers_def zero_plus_first_group points_total)
  have a: "sumNumbers (map amount (transactions tenths_state)) = Finite 5854679515581645 (- 52)"
    by (simp add: tenths_state_eq sumNumbers_def zero_plus_tenth tenth_plus_tenth amounts_total)
  have ne: "\<not> js_equals (Finite 5854679515581646 (- 52)) (Finite 5854679515581645 (- 52))"
    by (simp add: js_equals_def)
  from p a ne tenths_are_binary64 show ?thesis by (simp add: tenths_state_eq)
qed

lemma add_to_first_whole:
  assumes "map g_amount gs = map whole is"
    and "\<exists>g \<in> set gs. g_customer_id g = cid"
    and "sum_list (map abs is) + \<bar>n\<bar> < 2 ^ 53"
  shows "\<exists>js. map g_amount (add_to_first cid (whole n) gs) = map whole js \<and>
              sum_list js = sum_list is + n \<and>
              sum_list (map abs js) \<le> sum_list (map abs is) + \<bar>n\<bar>"
  using assms
proof (induction gs arbitrary: "is")
  case Nil
  then show ?case by simp
next
  case (Cons g gs)
  from Cons.prems(1) obtain i is' where "is": "is = i # is'"
    and gi: "g_amount g = whole i" and rest: "map g_amount gs = map whole is'"
    by (cases "is") auto
  show ?case
  proof (cases "g_customer_id g = cid")
    case True
    have "\<bar>i + n\<bar> \<le> \<bar>i\<bar> + \<bar>n\<bar>" by (rule abs_triangle_ineq)
    moreover have "0 \<le> sum_list (map abs is')" by (rule sum_list_abs_nonneg)
    ultimately have small: "\<bar>i + n\<bar> < 2 ^ 53" using Cons.prems(3) "is" by simp
    have "map g_amount (add_to_first cid (whole n) (g # gs)) = map whole ((i + n) # is')"
      using True gi rest small by (simp add: js_add_whole)
    moreover have "sum_list ((i + n) # is') = sum_list is + n" using "is" by simp
    moreover have "sum_list (map abs ((i + n) # is')) \<le> sum_list (map abs is) + \<bar>n\<bar>"
      using "is" \<open>\<bar>i + n\<bar> \<le> \<bar>i\<bar> + \<bar>n\<bar>\<close> by simp
    ultimately show ?thesis by blast
  next
    case False
    with Cons.prems(2) have ex: "\<exists>g \<in> set gs. g_customer_id g = cid" by auto
    from Cons.prems(3) "is" have "sum_list (map abs is') + \<bar>n\<bar> < 2 ^ 53" by simp
    from Cons.IH [OF rest ex this] obtain js where
      js: "map g_amount (add_to_first cid (whole n) gs) = map whole js"
        "sum_list js = sum_list is' + n"
        "sum_list (map abs js) \<le> sum_list (map abs is') + \<bar>n\<bar>"
      by blast
    have "map g_amount (add_to_first cid (whole n) (g # gs)) = map whole (i # js)"
      using False gi js(1) by simp
    moreover have "sum_list (i # js) = sum_list is + n" using "is" js(2) by simp
    moreover have "sum_list (map abs (i # js)) \<le> sum_list (map abs is) + \<bar>n\<bar>"
      using "is" js(3) by simp
    ultimately show ?thesis by blast
  qed
qed

lemma groupStep_whole:
  assumes acc: "map g_amount acc = map whole is"
    and t: "amount t = whole n"
    and bound: "sum_list (map abs is) + \<bar>n\<bar> < 2 ^ 53"
  shows "\<exists>js. map g_amount (groupStep acc t) = map whole js \<and>
              sum_list js = sum_list is + n \<and>
              sum_list (map abs js) \<le> sum_list (map abs is) + \<bar>n\<bar>"
proof (cases "find (\<lambda>item. g_customer_id item = customer_id t) acc")
  case None
  then have "map g_amount (groupStep acc t) = map whole (is @ [n])"
    using acc t by (simp add: groupStep_def)
  moreover have "sum_list (is @ [n]) = sum_list is + n" by simp
  moreover have "sum_list (map abs (is @ [n])) \<le> sum_list (map abs is) + \<bar>n\<bar>" by simp
  ultimately show ?thesis by blast
next
  case (Some g)
  then have "\<exists>g \<in> set acc. g_customer_id g = customer_id t"
    by (auto simp add: find_Some_iff)
  from add_to_first_whole [OF acc this bound] Some t show ?thesis
    by (simp add: groupStep_def)
qed

lemma foldl_groupStep_whole:
  assumes "map g_amount acc = map whole is"
    and "map amount ts = map whole ns"
    and "sum_list (map abs is) + sum_list (map abs ns) < 2 ^ 53"
  shows "\<exists>js. map g_amount (foldl groupStep acc ts) = map whole js \<and>
              sum_list js = sum_list is + sum_list ns \<and>
              sum_list (map abs js) \<le> sum_list (map abs is) + sum_list (map abs ns)"
  using assms
proof (induction ts arbitrary: acc "is" ns)
  case Nil
  then show ?case by auto
next
  case (Cons t ts)
  from Cons.prems(2) obtain n ns' where ns: "ns = n # ns'"
    and tn: "amount t = whole n" and rest: "map amount ts = map whole ns'"
    by (cases ns) auto
  have nn: "0 \<le> sum_list (map abs ns')" by (rule sum_list_abs_nonneg)
  with Cons.prems(3) ns have b1: "sum_list (map abs is) + \<bar>n\<bar> < 2 ^ 53" by simp
  from groupStep_whole [OF Cons.prems(1) tn b1] obtain js where
    js: "map g_amount (groupStep acc t) = map whole js"
      "sum_list js = sum_list is + n"
      "sum_list (map abs js) \<le> sum_list (map abs is) + \<bar>n\<bar>"
    by blast
  from js(3) Cons.prems(3) ns have b2: "sum_list (map abs js) + sum_list (map abs ns') < 2 ^ 53"
    by simp
  from Cons.IH [OF js(1) rest b2] obtain ks where
    ks: "map g_amount (foldl groupStep (groupStep acc t) ts) = map whole ks"
      "sum_list ks = sum_list js + sum_list ns'"
      "sum_list (map abs ks) \<le> sum_list (map abs js) + sum_list (map abs ns')"
    by blast
  have "map g_amount (foldl groupStep acc (t # ts)) = map whole ks" using ks(1) by simp
  moreover have "sum_list ks = sum_list is + sum_list ns" using ks(2) js(2) ns by simp
  moreover have "sum_list (map abs ks) \<le> sum_list (map abs is) + sum_list (map abs ns)"
    using ks(3) js(3) ns by simp
  ultimately show ?case by blast
qed

lemma groups_total_whole:
  assumes "map amount ts = map whole ns" and "sum_list (map abs ns) < 2 ^ 53"
  shows "sumNumbers (map g_amount (foldl groupStep [] ts)) = whole (sum_list ns)"
proof -
  from foldl_groupStep_whole [of "[]" "[]" ts ns] assms obtain js where
    js: "map g_amount (foldl groupStep [] ts) = map whole js"
      "sum_list js = sum_list ns"
      "sum_list (map abs js) \<le> sum_list (map abs ns)"
    by auto
  from js(3) assms(2) have "sum_list (map abs js) < 2 ^ 53" by simp
  then have "sumNumbers (map whole js) = whole (sum_list js)" by (rule sumNumbers_whole)
  with js show ?thesis by simp
qed

text \<open>
  Claim C4, amended. When the amounts are integers whose absolute values add up to
  less than \<open>2^53\<close> (no addition rounds), then with no customer selected
  (\<open>selectedCustomer\<close> is \<open>null\<close> or \<open>undefined\<close>) the points of the chart add up to
  the sum of the amounts of all transactions of the snapshot, and both sums are exact.
\<close>

theorem aggregateByCustomer_conserves_total:
  assumes ints: "map amount (transactions st) = map whole ns"
    and bound: "sum_list (map abs ns) < 2 ^ 53"
  shows "sumNumbers (data (chartData (st\<lparr>selectedCustomer := Null\<rparr>))) = whole (sum_list ns) \<and>
         sumNumbers (data (chartData (st\<lparr>selectedCustomer := Undefined\<rparr>))) =
           whole (sum_list ns) \<and>
         sumNumbers (map amount (transactions st)) = whole (sum_list ns)"
proof -
  have g: "sumNumbers (map g_amount (foldl groupStep [] (transactions st))) =
             whole (sum_list ns)"
    using ints bound by (rule groups_total_whole)
  have a: "sumNumbers (map amount (transactions st)) = whole (sum_list ns)"
    using bound by (simp add: ints sumNumbers_whole)
  from g a show ?thesis by (simp add: chartData_Null chartData_Undefined)
qed

lemma scenario_chart:
  "chartData scenario_state =
     \<lparr>labels = [Some ''A'', Some ''B''], dataset_label = ''Total amount per customer'',
      data = [whole 15, whole 20]\<rparr>"
  by (simp add: scenario_state_eq scenario_customers_def scenario_transactions_def
      chartData_def Let_def groupStep_def Object_keys_def isArrayIndex_def obj_get_def
      js_add_whole)

theorem aggregateByCustomer_conserves_total_witness:
  "map amount (transactions scenario_state) = map whole [10, 5, 20] \<and>
   sum_list (map abs [10, 5, 20 :: int]) < 2 ^ 53 \<and>
   data (chartData scenario_state) = [whole 15, whole 20] \<and>
   sumNumbers (data (chartData scenario_state)) = whole 35 \<and>
   sumNumbers (map amount (transactions scenario_state)) = whole 35"
proof -
  have ints: "map amount (transactions scenario_state) = map whole [10, 5, 20]"
    by (simp add: scenario_state_eq scenario_transactions_def)
  have bound: "sum_list (map abs [10, 5, 20 :: int]) < 2 ^ 53" by simp
  have same: "scenario_state\<lparr>selectedCustomer := Null\<rparr> = scenario_state"
    by (simp add: scenario_state_eq)
  from aggregateByCustomer_conserves_total [OF ints bound]
  have "sumNumbers (data (chartData scenario_state)) = whole 35"
    and "sumNumbers (map amount (transactions scenario_state)) = whole 35"
    by (simp_all add: same)
  with ints bound show ?thesis by (simp add: scenario_chart)
qed

subsection \<open>The chart of one customer\<close>

lemma foldl_amounts:
  "foldl (\<lambda>sum t. js_add sum (amount t)) z ts = foldl js_add z (map amount ts)"
  by (simp add: foldl_map)

lemma chartData_Obj:
  "selectedCustomer st = Obj c \<Longrightarrow>
   chartData st =
     \<lparr>labels = map Some (new_Set (map date
                 (filter (\<lambda>t. customer_id t = id_cust c) (transactions st)))),
      dataset_label = ''Total amount per day for '' @ name c,
      data = map (\<lambda>d. sumNumbers (map amount (filter (\<lambda>t. date t = d)
                   (filter (\<lambda>t. customer_id t = id_cust c) (transactions st)))))
                 (new_Set (map date
                   (filter (\<lambda>t. customer_id t = id_cust c) (transactions st))))\<rparr>"
  by (simp add: chartData_def Let_def foldl_amounts sumNumbers_def)

lemma tenths_by_day_data:
  "data (chartData tenths_by_day_state) = [Finite 5404319552844596 (- 52), tenth]"
  by (simp add: chartData_def tenths_by_day_state_def Let_def new_Set_def Set_add_def
      zero_plus_tenth tenth_plus_eleven_tenths)

text \<open>
  Claim C5 says that the points add up to the total of the customer's amounts, for every
  transaction collection. In \<open>tenths_by_day_state\<close> customer 1 pays 0.1 and 1.1 on one
  day and 0.1 on another: the points add up to \<open>5854679515581646 * 2^-52\<close>, the three
  amounts in their order to \<open>5854679515581645 * 2^-52\<close>.
\<close>

theorem aggregateByCustomerDay_total_is_rounded:
  "selectedCustomer tenths_by_day_state = Obj \<lparr>id_cust = 1, name = ''A''\<rparr> \<and>
   map amount (filter (\<lambda>t. customer_id t = 1) (transactions tenths_by_day_state)) =
     [tenth, tenth, eleven_tenths] \<and>
   sumNumbers (data (chartData tenths_by_day_state)) = Finite 5854679515581646 (- 52) \<and>
   sumNumbers (map amount (filter (\<lambda>t. customer_id t = 1) (transactions tenths_by_day_state))) =
     Finite 5854679515581645 (- 52) \<and>
   \<not> js_equals (sumNumbers (data (chartData tenths_by_day_state)))
        (sumNumbers (map amount
           (filter (\<lambda>t. customer_id t = 1) (transactions tenths_by_day_state))))"
proof -
  have p: "sumNumbers (data (chartData tenths_by_day_state)) = Finite 5854679515581646 (- 52)"
    by (simp add: tenths_by_day_data sumNumbers_def zero_plus_first_group points_total)
  have a: "sumNumbers (map amount
             (filter (\<lambda>t. customer_id t = 1) (transactions tenths_by_day_state))) =
           Finite 5854679515581645 (- 52)"
    by (simp add: tenths_by_day_state_def sumNumbers_def zero_plus_tenth tenth_plus_tenth
        amounts_total)
  have ne: "\<not> js_equals (Finite 5854679515581646 (- 52)) (Finite 5854679515581645 (- 52))"
    by (simp add: js_equals_def)
  from p a ne show ?thesis by (simp add: tenths_by_day_state_def)
qed

lemma new_Set_snoc: "new_Set (xs @ [x]) = Set_add (new_Set xs) x"
  by (simp add: new_Set_def)

lemma set_new_Set: "set (new_Set xs) = set xs"
  by (induction xs rule: rev_induct) (auto simp add: new_Set_snoc Set_add_def new_Set_def)

lemma distinct_new_Set: "distinct (new_Set xs)"
  by (induction xs rule: rev_induct) (auto simp add: new_Set_snoc Set_add_def new_Set_def)

lemma first_index_append_mem: "y \<in> set xs \<Longrightarrow> first_index (xs @ zs) y = first_index xs y"
  by (simp add: first_index_def takeWhile_append1) 

lemma first_index_less: "y \<in> set xs \<Longrightarrow> first_index xs y < length xs"
  by (induction xs) (auto simp add: first_index_def)

lemma first_index_snoc_new: "x \<notin> set xs \<Longrightarrow> first_index (xs @ [x]) x = length xs"
  by (induction xs) (auto simp add: first_index_def)

lemma new_Set_order:
  "i < j \<Longrightarrow> j < length (new_Set xs) \<Longrightarrow>
   first_index xs (new_Set xs ! i) < first_index xs (new_Set xs ! j)"
proof (induction xs arbitrary: i j rule: rev_induct)
  case Nil
  then show ?case by (simp add: new_Set_def)
next
  case (snoc x xs)
  let ?ds = "new_Set xs"
  show ?case
  proof (cases "x \<in> set ?ds")
    case True
    then have eq: "new_Set (xs @ [x]) = ?ds" by (simp add: new_Set_snoc Set_add_def)
    from snoc.prems eq have j: "j < length ?ds" by simp
    with snoc.prems have i: "i < length ?ds" by simp
    from i j have "?ds ! i \<in> set xs" "?ds ! j \<in> set xs"
      using set_new_Set [of xs] nth_mem by blast+
    with snoc.IH [OF snoc.prems(1) j] eq show ?thesis
      by (simp add: first_index_append_mem)
  next
    case False
    then have eq: "new_Set (xs @ [x]) = ?ds @ [x]" by (simp add: new_Set_snoc Set_add_def)
    from False have xnew: "x \<notin> set xs" by (simp add: set_new_Set)
    from snoc.prems eq have j: "j \<le> length ?ds" by simp
    with snoc.prems have i: "i < length ?ds" by simp
    then have imem: "?ds ! i \<in> set xs" using set_new_Set [of xs] nth_mem by blast
    show ?thesis
    proof (cases "j < length ?ds")
      case True
      then have "?ds ! j \<in> set xs" using set_new_Set [of xs] nth_mem by blast
      with snoc.IH [OF snoc.prems(1) True] eq imem i True show ?thesis
        by (simp add: first_index_append_mem nth_append)
    next
      case False
      with j have "j = length ?ds" by simp
      with eq i imem xnew show ?thesis
        by (simp add: nth_append first_index_append_mem first_index_snoc_new first_index_less)
    qed
  qed
qed

lemma sum_list_single_key:
  "distinct ds \<Longrightarrow>
   sum_list (map (\<lambda>d. if k = d then a else (0::int)) ds) = (if k \<in> set ds then a else 0)"
  by (induction ds) auto

lemma sum_by_key:
  fixes v :: "transaction \<Rightarrow> int"
  shows "distinct ds \<Longrightarrow> date ` set ts \<subseteq> set ds \<Longrightarrow>
   sum_list (map (\<lambda>d. sum_list (map v (filter (\<lambda>t. date t = d) ts))) ds) =
   sum_list (map v ts)"
proof (induction ts)
  case Nil
  then show ?case by simp
next
  case (Cons t ts)
  have "sum_list (map (\<lambda>d. sum_list (map v (filter (\<lambda>t. date t = d) (t # ts)))) ds) =
        sum_list (map (\<lambda>d. (if date t = d then v t else 0) +
                            sum_list (map v (filter (\<lambda>t. date t = d) ts))) ds)"
    by (rule arg_cong [where f = sum_list]) (rule map_cong, simp_all)
  also have "\<dots> = sum_list (map (\<lambda>d. if date t = d then v t else 0) ds) +
                   sum_list (map (\<lambda>d. sum_list (map v (filter (\<lambda>t. date t = d) ts))) ds)"
    by (simp add: sum_list_addf)
  also have "\<dots> = v t + sum_list (map v ts)"
    using Cons by (simp add: sum_list_single_key)
  finally show ?case by simp
qed

lemma sum_list_filter_le:
  fixes w :: "'a \<Rightarrow> int"
  assumes "\<And>x. 0 \<le> w x"
  shows "sum_list (map w (filter P xs)) \<le> sum_list (map w xs)"
proof (induction xs)
  case Nil
  then show ?case by simp
next
  case (Cons x xs)
  with assms [of x] show ?case by simp
qed

lemma day_total_whole:
  assumes all: "map amount cts = map (\<lambda>t. whole (h t)) cts"
    and bound: "sum_list (map (\<lambda>t. \<bar>h t\<bar>) cts) < 2 ^ 53"
  shows "sumNumbers (map amount (filter P cts)) = whole (sum_list (map h (filter P cts)))"
proof -
  from all have each: "\<forall>t \<in> set cts. amount t = whole (h t)" by (simp add: map_eq_conv)
  have eq: "map amount (filter P cts) = map whole (map h (filter P cts))"
    unfolding map_map o_def by (rule map_cong) (simp_all add: each)
  have "sum_list (map (\<lambda>t. \<bar>h t\<bar>) (filter P cts)) \<le> sum_list (map (\<lambda>t. \<bar>h t\<bar>) cts)"
    by (rule sum_list_filter_le) simp
  with bound have "sum_list (map (\<lambda>t. \<bar>h t\<bar>) (filter P cts)) < 2 ^ 53" by simp
  then have "sum_list (map abs (map h (filter P cts))) < 2 ^ 53"
    by (simp only: map_map o_def)
  then have "sumNumbers (map whole (map h (filter P cts))) =
      whole (sum_list (map h (filter P cts)))"
    by (rule sumNumbers_whole)
  then show ?thesis by (simp only: eq)
qed

lemma days_total_whole:
  fixes cts :: "transaction list"
  assumes ints: "map amount cts = map whole ns"
    and bound: "sum_list (map abs ns) < 2 ^ 53"
    and dist: "distinct ds" and cover: "date ` set cts \<subseteq> set ds"
  shows "sumNumbers (map (\<lambda>d. sumNumbers (map amount (filter (\<lambda>t. date t = d) cts))) ds) =
           whole (sum_list ns)"
proof -
  let ?h = "\<lambda>t. mantissa (amount t)"
  from whole_amounts [OF ints] have ns: "ns = map ?h cts"
    and all: "map amount cts = map (\<lambda>t. whole (?h t)) cts"
    by simp_all
  from bound ns have b: "sum_list (map (\<lambda>t. \<bar>?h t\<bar>) cts) < 2 ^ 53" by (simp add: o_def)
  let ?day = "\<lambda>d. sum_list (map ?h (filter (\<lambda>t. date t = d) cts))"
  have pts: "map (\<lambda>d. sumNumbers (map amount (filter (\<lambda>t. date t = d) cts))) ds =
             map whole (map ?day ds)"
    using day_total_whole [OF all b] by (simp add: o_def)
  have each: "\<bar>?day d\<bar> \<le> sum_list (map (\<lambda>t. \<bar>?h t\<bar>) (filter (\<lambda>t. date t = d) cts))"
    for d
    using abs_sum_list_le [of "map ?h (filter (\<lambda>t. date t = d) cts)"]
    by (simp only: map_map o_def)
  have "sum_list (map abs (map ?day ds)) \<le>
        sum_list (map (\<lambda>d. sum_list (map (\<lambda>t. \<bar>?h t\<bar>) (filter (\<lambda>t. date t = d) cts))) ds)"
    unfolding map_map o_def by (rule sum_list_mono) (rule each)
  also have "\<dots> = sum_list (map (\<lambda>t. \<bar>?h t\<bar>) cts)"
    by (rule sum_by_key [where v = "\<lambda>t. \<bar>?h t\<bar>", OF dist cover])
  finally have "sum_list (map abs (map ?day ds)) < 2 ^ 53" using b by simp
  then have s: "sumNumbers (map whole (map ?day ds)) = whole (sum_list (map ?day ds))"
    by (rule sumNumbers_whole)
  have e: "sum_list (map ?day ds) = sum_list (map ?h cts)"
    by (rule sum_by_key [where v = ?h, OF dist cover])
  have "sumNumbers (map (\<lambda>d. sumNumbers (map amount (filter (\<lambda>t. date t = d) cts))) ds) =
        sumNumbers (map whole (map ?day ds))"
    by (simp only: pts)
  also have "\<dots> = whole (sum_list (map ?day ds))" by (rule s)
  also have "\<dots> = whole (sum_list (map ?h cts))" by (simp only: e)
  also have "\<dots> = whole (sum_list ns)" by (simp only: ns [symmetric])
  finally show ?thesis .
qed

text \<open>
  Claim C5, amended. With customer \<open>c\<close> selected, let \<open>cts\<close> be the transactions of \<open>c\<close>.
  The labels of the chart are the dates of \<open>cts\<close>, each once, ordered by the position
  at which the date first occurs in \<open>cts\<close> (not sorted); there is one point per label,
  and the \<open>i\<close>-th point is the sum, added from left to right in binary64, of the
  amounts of the transactions of \<open>cts\<close> on the \<open>i\<close>-th date. When the amounts of \<open>cts\<close>
  are integers whose absolute values add up to less than \<open>2^53\<close>, the points add up to
  the sum of the amounts of \<open>cts\<close>, and both sums are exact.
\<close>

theorem aggregateByCustomerDay_series:
  assumes sel: "selectedCustomer st = Obj c"
    and cts: "cts = filter (\<lambda>t. customer_id t = id_cust c) (transactions st)"
  shows "\<exists>ds. labels (chartData st) = map Some ds \<and>
           distinct ds \<and> set ds = date ` set cts \<and>
           (\<forall>i j. i < j \<and> j < length ds \<longrightarrow>
              first_index (map date cts) (ds ! i) < first_index (map date cts) (ds ! j)) \<and>
           length (data (chartData st)) = length ds \<and>
           (\<forall>i < length ds.
              data (chartData st) ! i =
                sumNumbers (map amount (filter (\<lambda>t. date t = ds ! i) cts))) \<and>
           (map amount cts = map whole ns \<and> sum_list (map abs ns) < 2 ^ 53 \<longrightarrow>
              sumNumbers (data (chartData st)) = whole (sum_list ns) \<and>
              sumNumbers (map amount cts) = whole (sum_list ns))"
proof -
  let ?ds = "new_Set (map date cts)"
  have l: "labels (chartData st) = map Some ?ds"
    using sel cts by (simp add: chartData_Obj)
  have d: "data (chartData st) =
             map (\<lambda>d. sumNumbers (map amount (filter (\<lambda>t. date t = d) cts))) ?ds"
    using sel cts by (simp add: chartData_Obj)
  have dist: "distinct ?ds" by (rule distinct_new_Set)
  have st: "set ?ds = date ` set cts" by (simp add: set_new_Set)
  have ord: "\<forall>i j. i < j \<and> j < length ?ds \<longrightarrow>
      first_index (map date cts) (?ds ! i) < first_index (map date cts) (?ds ! j)"
    using new_Set_order [of _ _ "map date cts"] by blast
  have len: "length (data (chartData st)) = length ?ds" by (simp add: d)
  have pt: "\<forall>i < length ?ds.
      data (chartData st) ! i = sumNumbers (map amount (filter (\<lambda>t. date t = ?ds ! i) cts))"
    by (simp add: d)
  have tot: "map amount cts = map whole ns \<and> sum_list (map abs ns) < 2 ^ 53 \<longrightarrow>
      sumNumbers (data (chartData st)) = whole (sum_list ns) \<and>
      sumNumbers (map amount cts) = whole (sum_list ns)"
  proof
    assume h: "map amount cts = map whole ns \<and> sum_list (map abs ns) < 2 ^ 53"
    then have ints: "map amount cts = map whole ns" and b: "sum_list (map abs ns) < 2 ^ 53"
      by simp_all
    have cover: "date ` set cts \<subseteq> set ?ds" using st by simp
    have "sumNumbers (data (chartData st)) = whole (sum_list ns)"
      unfolding d using ints b dist cover by (rule days_total_whole)
    moreover have "sumNumbers (map amount cts) = whole (sum_list ns)"
      unfolding ints using b by (rule sumNumbers_whole)
    ultimately show "sumNumbers (data (chartData st)) = whole (sum_list ns) \<and>
      sumNumbers (map amount cts) = whole (sum_list ns)" by simp
  qed
  from l dist st ord len pt tot show ?thesis by blast
qed

text \<open>
  Customer 1 bought on 2024-01-02, 2024-01-01 and again on 2024-01-02: the labels keep
  that order and the two purchases of 2024-01-02 are added.
\<close>

lemma unsorted_chart:
  "chartData unsorted_state =
     \<lparr>labels = [Some ''2024-01-02'', Some ''2024-01-01''],
      dataset_label = ''Total amount per day for A'', data = [whole 12, whole 10]\<rparr>"
  by (simp add: chartData_def unsorted_state_def Let_def new_Set_def Set_add_def js_add_whole)

theorem aggregateByCustomerDay_series_witness:
  "selectedCustomer unsorted_state = Obj \<lparr>id_cust = 1, name = ''A''\<rparr> \<and>
   map amount (filter (\<lambda>t. customer_id t = 1) (transactions unsorted_state)) =
     map whole [5, 10, 7] \<and>
   sum_list (map abs [5, 10, 7 :: int]) < 2 ^ 53 \<and>
   labels (chartData unsorted_state) = [Some ''2024-01-02'', Some ''2024-01-01''] \<and>
   data (chartData unsorted_state) = [whole 12, whole 10] \<and>
   sumNumbers (data (chartData unsorted_state)) = whole 22"
proof -
  have sel: "selectedCustomer unsorted_state = Obj \<lparr>id_cust = 1, name = ''A''\<rparr>"
    by (simp add: unsorted_state_def)
  have ints: "map amount (filter (\<lambda>t. customer_id t = 1) (transactions unsorted_state)) =
      map whole [5, 10, 7]"
    by (simp add: unsorted_state_def)
  have bound: "sum_list (map abs [5, 10, 7 :: int]) < 2 ^ 53" by simp
  from aggregateByCustomerDay_series [OF sel refl, where ns = "[5, 10, 7]"] ints bound
  have "sumNumbers (data (chartData unsorted_state)) = whole (sum_list [5, 10, 7])"
    by auto
  then have "sumNumbers (data (chartData unsorted_state)) = whole 22" by simp
  with sel ints bound show ?thesis by (simp add: unsorted_chart)
qed

subsection \<open>Transactions whose customer is missing\<close>

text \<open>
  Claim C9. Let \<open>t\<close> be a transaction whose \<open>customer_id\<close> is the id of no customer.
  Its table row has an absent customer name (\<open>undefined\<close>) and the date and amount of
  \<open>t\<close>. Filtering with a string that \<open>parseInt\<close> reads as that id still yields the
  transactions with that \<open>customer_id\<close>; \<open>selectedCustomer\<close> becomes \<open>undefined\<close>, so
  \<open>chartData\<close> does not read a property of it and returns the chart of all customers;
  when the amounts are integers whose absolute values add up to less than \<open>2^53\<close>, its
  points add up to the amounts of all transactions. No function of the model has an
  error result: the source guards each property read (\<open>?.\<close> in the table, the
  truthiness tests in \<open>chartData\<close>).
\<close>

theorem unmatched_customer_tolerated:
  assumes un: "\<forall>c \<in> set (customers st). id_cust c \<noteq> customer_id t"
    and parse: "parseInt customerId = Some (customer_id t)"
    and st': "st' = handleFilterCustomerID customerId st"
  shows "cell_customer (tableRow (customers st) t) = None \<and>
         cell_date (tableRow (customers st) t) = date t \<and>
         cell_amount (tableRow (customers st) t) = amount t \<and>
         filteredTransactions st' =
           filter (\<lambda>u. customer_id u = customer_id t) (transactions st) \<and>
         selectedCustomer st' = Undefined \<and>
         chartData st' = chartData (st\<lparr>selectedCustomer := Null\<rparr>) \<and>
         (map amount (transactions st) = map whole ns \<and> sum_list (map abs ns) < 2 ^ 53 \<longrightarrow>
            sumNumbers (data (chartData st')) = whole (sum_list ns) \<and>
            sumNumbers (map amount (transactions st)) = whole (sum_list ns))"
proof -
  from parse have ne: "customerId \<noteq> ''''" by (auto simp add: parseInt_empty)
  have cell: "cell_customer (tableRow (customers st) t) = None"
    using un by (simp add: tableRow_def find_None_iff)
  have rest: "cell_date (tableRow (customers st) t) = date t"
    "cell_amount (tableRow (customers st) t) = amount t"
    by (simp_all add: tableRow_def)
  have nf: "find (\<lambda>c. strict_eq (id_cust c) (Some (customer_id t))) (customers st) = None"
    using un by (simp add: find_None_iff strict_eq_def)
  have flt: "filteredTransactions st' =
               filter (\<lambda>u. customer_id u = customer_id t) (transactions st)"
    using ne by (simp add: st' handleFilterCustomerID_def Let_def parse strict_eq_def)
  have sel: "selectedCustomer st' = Undefined"
    using ne by (simp add: st' handleFilterCustomerID_def Let_def parse nf)
  have same: "st'\<lparr>selectedCustomer := Null\<rparr> =
              st\<lparr>selectedCustomer := Null, filteredTransactions := filteredTransactions st'\<rparr>"
    using ne by (simp add: st' handleFilterCustomerID_def Let_def)
  have ch: "chartData st' = chartData (st\<lparr>selectedCustomer := Null\<rparr>)"
    using chartData_not_selected [OF sel] by (simp add: same chartData_def)
  have tot: "map amount (transactions st) = map whole ns \<and> sum_list (map abs ns) < 2 ^ 53 \<longrightarrow>
      sumNumbers (data (chartData st')) = whole (sum_list ns) \<and>
      sumNumbers (map amount (transactions st)) = whole (sum_list ns)"
  proof
    assume "map amount (transactions st) = map whole ns \<and> sum_list (map abs ns) < 2 ^ 53"
    then have ints: "map amount (transactions st) = map whole ns"
      and b: "sum_list (map abs ns) < 2 ^ 53"
      by simp_all
    have "sumNumbers (map g_amount (foldl groupStep [] (transactions st))) =
        whole (sum_list ns)"
      using ints b by (rule groups_total_whole)
    then have "sumNumbers (data (chartData st')) = whole (sum_list ns)"
      by (simp only: ch chartData_Null)
    moreover have "sumNumbers (map amount (transactions st)) = whole (sum_list ns)"
      unfolding ints using b by (rule sumNumbers_whole)
    ultimately show "sumNumbers (data (chartData st')) = whole (sum_list ns) \<and>
      sumNumbers (map amount (transactions st)) = whole (sum_list ns)"
      by simp
  qed
  from cell rest flt sel ch tot show ?thesis by blast
qed

theorem unmatched_customer_tolerated_witness:
  "map id_cust (customers orphan_state) = [1] \<and>
   parseInt ''2'' = Some 2 \<and>
   tableBody orphan_state =
     [\<lparr>row_key = 1, cell_customer = Some ''A'', cell_date = ''2024-01-01'',
        cell_amount = whole 10\<rparr>,
      \<lparr>row_key = 2, cell_customer = Some ''A'', cell_date = ''2024-01-02'',
        cell_amount = whole 5\<rparr>,
      \<lparr>row_key = 3, cell_customer = None, cell_date = ''2024-01-01'',
        cell_amount = whole 20\<rparr>] \<and>
   selectedCustomer (handleFilterCustomerID ''2'' orphan_state) = Undefined \<and>
   map id_txn (filteredTransactions (handleFilterCustomerID ''2'' orphan_state)) = [3] \<and>
   sumNumbers (data (chartData (handleFilterCustomerID ''2'' orphan_state))) = whole 35"
proof -
  let ?t = "\<lparr>id_txn = 3, customer_id = 2, date = ''2024-01-01'', amount = whole 20\<rparr>"
  have un: "\<forall>c \<in> set (customers orphan_state). id_cust c \<noteq> customer_id ?t"
    by (simp add: orphan_state_eq)
  have parse: "parseInt ''2'' = Some (customer_id ?t)" by (simp add: parseInt_2)
  have ints: "map amount (transactions orphan_state) = map whole [10, 5, 20]"
    by (simp add: orphan_state_eq scenario_transactions_def)
  have bound: "sum_list (map abs [10, 5, 20 :: int]) < 2 ^ 53" by simp
  note inst = unmatched_customer_tolerated [OF un parse refl, where ns = "[10, 5, 20]"]
  have body: "tableBody orphan_state =
     [\<lparr>row_key = 1, cell_customer = Some ''A'', cell_date = ''2024-01-01'',
        cell_amount = whole 10\<rparr>,
      \<lparr>row_key = 2, cell_customer = Some ''A'', cell_date = ''2024-01-02'',
        cell_amount = whole 5\<rparr>,
      \<lparr>row_key = 3, cell_customer = None, cell_date = ''2024-01-01'',
        cell_amount = whole 20\<rparr>]"
    by (simp add: tableBody_def tableRow_def orphan_state_eq scenario_transactions_def)
  from inst have sel: "selectedCustomer (handleFilterCustomerID ''2'' orphan_state) = Undefined"
    by blast
  from inst have "filteredTransactions (handleFilterCustomerID ''2'' orphan_state) =
      filter (\<lambda>u. customer_id u = 2) (transactions orphan_state)"
    by (elim conjE) simp
  then have flt: "map id_txn (filteredTransactions (handleFilterCustomerID ''2'' orphan_state)) =
      [3]"
    by (simp add: orphan_state_eq scenario_transactions_def)
  from inst ints bound
  have "sumNumbers (data (chartData (handleFilterCustomerID ''2'' orphan_state))) =
      whole (sum_list [10, 5, 20])"
    by blast
  then have tot: "sumNumbers (data (chartData (handleFilterCustomerID ''2'' orphan_state))) =
      whole 35"
    by simp
  have ids: "map id_cust (customers orphan_state) = [1]"
    by (simp add: orphan_state_eq)
  from ids body sel flt tot parseInt_2 show ?thesis by blast
qed

subsection \<open>Labels and points with no customer selected\<close>

text \<open>
  Claim C1 says that, with no customer selected, the chart has as many points as labels
  and the \<open>i\<close>-th point is the total of the customer named by the \<open>i\<close>-th label. The
  code takes the labels from all customers (in key order of \<open>customerNames\<close>) and the
  points from the customers that have transactions (in order of first transaction).
  With customers A and B and one transaction of 20 for B, the labels are A and B and
  the only point is 20: one point for two labels, and B's total under A's label.
\<close>

theorem chartData_labels_points_misaligned:
  "map name (customers single_purchase_state) = [''A'', ''B''] \<and>
   map customer_id (transactions single_purchase_state) = [2] \<and>
   selectedCustomer single_purchase_state = Null \<and>
   labels (chartData single_purchase_state) = [Some ''A'', Some ''B''] \<and>
   data (chartData single_purchase_state) = [whole 20]"
  by (simp add: single_purchase_state_def loadEffect_def getData_def initial_state_def
      scenario_customers_def chartData_def Let_def groupStep_def Object_keys_def
      isArrayIndex_def obj_get_def)

subsection \<open>Clearing the amount\<close>

text \<open>
  Claim C2 says that an unset threshold leaves the transactions unfiltered. When the
  amount input is cleared the handler receives the empty string, \<open>parseInt\<close> gives
  \<open>NaN\<close>, every comparison \<open>amount >= NaN\<close> is false, and the filtered list of the
  scenario (three transactions) is empty.
\<close>

theorem handleFilterAmount_unset_shows_nothing:
  "length (transactions scenario_state) = 3 \<and>
   parseInt '''' = None \<and>
   filteredTransactions (handleFilterAmount '''' scenario_state) = []"
  by (simp add: parseInt_empty handleFilterAmount_def greater_eq_num_def scenario_state_eq
      scenario_transactions_def)

subsection \<open>No transactions\<close>

text \<open>
  Claim C6 says that both modes return empty labels and empty points when there are no
  transactions. With customers A and B loaded, no transaction and no customer selected,
  the chart has the labels A and B and no point: the labels come from the customers and
  the points from the transactions, as under claim C1.
\<close>

theorem chartData_no_transactions_keeps_labels:
  "map name (customers no_transactions_state) = [''A'', ''B''] \<and>
   transactions no_transactions_state = [] \<and>
   selectedCustomer no_transactions_state = Null \<and>
   labels (chartData no_transactions_state) = [Some ''A'', Some ''B''] \<and>
   data (chartData no_transactions_state) = []"
  by (simp add: no_transactions_state_def loadEffect_def getData_def initial_state_def
      scenario_customers_def chartData_def Let_def Object_keys_def isArrayIndex_def obj_get_def)

end
